theory Spec2Isabelle
  imports Main "HOL-Library.Sublist" "HOL-Library.AList"
begin

section \<open>The configuration module \<open>config.py\<close> of the Meta Ads API project\<close>

text \<open>
  The module is a sequence of six top-level assignments and nothing else: no function,
  no class, no control flow. Each name is modelled as a constant of the type its Python
  value has. All string literals of the module outside its comments and docstring are
  ASCII, so a Python \<open>str\<close> is a \<open>string\<close> here, character for character.
\<close>

subsection \<open>Python values\<close>

text \<open>
  The dictionaries of the module hold values of different Python types under their keys
  (\<open>int\<close>, \<open>str\<close> and \<open>list\<close>), so a dictionary value is a tagged value. Python's
  \<open>int\<close> is unbounded, hence \<open>int\<close>. A dictionary literal is an association list in the
  order of the source; \<open>PDict\<close> lets a dictionary be bound in a namespace.
\<close>

datatype pyval =
    PInt int
  | PStr string
  | PList "pyval list"
  | PDict "(string \<times> pyval) list"

type_synonym pydict = "(string \<times> pyval) list"

datatype py_error =
    KeyError string
  | NameError string
  | AttributeError string
  | TypeError
  | NotModelled

text \<open>\<open>d[k]\<close>: the value under the key, \<open>KeyError\<close> when the key is absent.\<close>

definition getitem :: "pydict \<Rightarrow> string \<Rightarrow> py_error + pyval" where
  "getitem d k = (case map_of d k of None \<Rightarrow> Inl (KeyError k) | Some v \<Rightarrow> Inr v)"

text \<open>\<open>list(d)\<close>: the keys of a dictionary, in insertion order.\<close>

definition keys :: "pydict \<Rightarrow> string list" where
  "keys d = map fst d"

subsection \<open>The constants\<close>

text \<open>
  \<^verbatim>\<open>FB_API_VERSION = "v20.0"\<close>
  \<^verbatim>\<open>FB_BASE_URL = f"https://graph.facebook.com/{FB_API_VERSION}"\<close>
  The f-string has one literal part and one replacement field without conversion or
  format specification; the field's value is a \<open>str\<close>, which formats as itself.
\<close>

definition FB_API_VERSION :: string where
  "FB_API_VERSION = ''v20.0''"

definition FB_BASE_URL :: string where
  "FB_BASE_URL = ''https://graph.facebook.com/'' @ FB_API_VERSION"

definition DEFAULT_API_FIELDS :: "string list" where
  "DEFAULT_API_FIELDS =
    [ ''spend'',
      ''cpc'',
      ''cpm'',
      ''objective'',
      ''adset_name'',
      ''adset_id'',
      ''clicks'',
      ''campaign_name'',
      ''campaign_id'',
      ''conversions'',
      ''frequency'',
      ''conversion_values'',
      ''ad_name'',
      ''ad_id'' ]"

definition API_RETRY_CONFIG :: pydict where
  "API_RETRY_CONFIG =
    [ (''total'', PInt 3),
      (''backoff_factor'', PInt 1),
      (''status_forcelist'', PList [PInt 500, PInt 502, PInt 503, PInt 504]) ]"

definition LOGGING_CONFIG :: pydict where
  "LOGGING_CONFIG =
    [ (''level'', PStr ''INFO''),
      (''format'', PStr ''%(asctime)s - %(levelname)s - %(message)s''),
      (''handlers'', PList [PStr ''FileHandler'', PStr ''StreamHandler'']),
      (''log_file'', PStr ''meta_ads.log'') ]"

definition BIGQUERY_CONFIG :: pydict where
  "BIGQUERY_CONFIG =
    [ (''if_exists'', PStr ''replace''),
      (''chunksize'', PInt 10000) ]"

subsection \<open>Vocabulary of the logging policy\<close>

text \<open>
  The level names that Python's standard \<open>logging\<close> module registers. The module under
  study only stores a level name; the table is the library's.
\<close>

definition logging_level_names :: "string list" where
  "logging_level_names =
    [''CRITICAL'', ''FATAL'', ''ERROR'', ''WARN'', ''WARNING'', ''INFO'', ''DEBUG'', ''NOTSET'']"

text \<open>
  The conversion specifiers of a printf-style format string, left to right. A specifier
  starts at a \<open>%\<close>, has an optional mapping key in parentheses, then flag, width,
  precision and length characters, and ends at its conversion character; \<open>%%\<close> is a
  specifier with the conversion character \<open>%\<close>. A string that ends inside a specifier
  yields \<open>Incomplete\<close>. The scanner is a state machine over the characters.
\<close>

datatype spec = Spec "string option" string char | Incomplete

datatype scan_mode = Text | Percent | Key string | Flags "string option" string

fun scan :: "scan_mode \<Rightarrow> string \<Rightarrow> spec list" where
  "scan Text [] = []"
| "scan Text (c # cs) = (if c = CHR ''%'' then scan Percent cs else scan Text cs)"
| "scan Percent [] = [Incomplete]"
| "scan Percent (c # cs) =
     (if c = CHR ''('' then scan (Key []) cs
      else if c \<in> set ''#0- +123456789.*hlL'' then scan (Flags None [c]) cs
      else Spec None [] c # scan Text cs)"
| "scan (Key k) [] = [Incomplete]"
| "scan (Key k) (c # cs) =
     (if c = CHR '')'' then scan (Flags (Some k) []) cs else scan (Key (k @ [c])) cs)"
| "scan (Flags k fl) [] = [Incomplete]"
| "scan (Flags k fl) (c # cs) =
     (if c \<in> set ''#0- +123456789.*hlL'' then scan (Flags k (fl @ [c])) cs
      else Spec k fl c # scan Text cs)"

definition percent_specs :: "string \<Rightarrow> spec list" where
  "percent_specs s = scan Text s"

text \<open>The number of positions of a string at which a pattern occurs.\<close>

fun count_occurrences :: "string \<Rightarrow> string \<Rightarrow> nat" where
  "count_occurrences pat [] = (if pat = [] then 1 else 0)"
| "count_occurrences pat (c # cs) =
     (if prefix pat (c # cs) then 1 else 0) + count_occurrences pat cs"

subsection \<open>Executing the module\<close>









subsection \<open>What importing code can do with the module\<close>









section \<open>Initialisation, and what a run of operations leaves unchanged\<close>












section \<open>Endpoint constants\<close>

text \<open>
  C1. The endpoint constants are two strings, and the derived base URL embeds the declared
  version string: \<open>FB_API_VERSION\<close> occurs as a contiguous substring of \<open>FB_BASE_URL\<close>.
  That both are strings is their type.
\<close>

theorem base_url_embeds_version:
  "sublist (FB_API_VERSION :: string) (FB_BASE_URL :: string)"
  unfolding FB_BASE_URL_def sublist_def
  by (rule exI [of _ "''https://graph.facebook.com/''"], rule exI [of _ "[]"]) simp

text \<open>
  C8. \<open>FB_BASE_URL\<close> is the fixed prefix \<open>https://graph.facebook.com/\<close> followed by
  \<open>FB_API_VERSION\<close>; the version being \<open>v20.0\<close>, the URL is exactly
  \<open>https://graph.facebook.com/v20.0\<close>, and its last character is not a slash.
\<close>

theorem base_url_value:
  "FB_BASE_URL = ''https://graph.facebook.com/'' @ FB_API_VERSION
   \<and> FB_API_VERSION = ''v20.0''
   \<and> FB_BASE_URL = ''https://graph.facebook.com/v20.0''
   \<and> last FB_BASE_URL \<noteq> CHR ''/''"
  by (simp add: FB_BASE_URL_def FB_API_VERSION_def)

section \<open>The default field list\<close>

text \<open>
  C2. \<open>DEFAULT_API_FIELDS\<close> has no duplicate entry, and every entry is a non-empty string.
\<close>

theorem default_fields_distinct_nonempty:
  "distinct DEFAULT_API_FIELDS \<and> (\<forall>f \<in> set DEFAULT_API_FIELDS. f \<noteq> [])"
  by (simp add: DEFAULT_API_FIELDS_def)

text \<open>The entry \<open>spend\<close> is in the list, and the theorem gives that it is non-empty.\<close>

theorem default_fields_distinct_nonempty_witness:
  "''spend'' \<in> set DEFAULT_API_FIELDS \<and> ''spend'' \<noteq> []"
proof -
  have m: "''spend'' \<in> set DEFAULT_API_FIELDS" by (simp add: DEFAULT_API_FIELDS_def)
  from default_fields_distinct_nonempty have "\<forall>f \<in> set DEFAULT_API_FIELDS. f \<noteq> []" ..
  from this m have "''spend'' \<noteq> []" by (rule bspec)
  with m show ?thesis ..
qed

text \<open>
  C9. For each of the entity prefixes \<open>campaign\<close>, \<open>adset\<close> and \<open>ad\<close>, both the
  \<open>_name\<close> field and the \<open>_id\<close> field of the entity are in \<open>DEFAULT_API_FIELDS\<close>.
\<close>

theorem name_id_paired:
  "\<forall>p \<in> {''campaign'', ''adset'', ''ad''}.
     p @ ''_name'' \<in> set DEFAULT_API_FIELDS \<and> p @ ''_id'' \<in> set DEFAULT_API_FIELDS"
  by (simp add: DEFAULT_API_FIELDS_def)

text \<open>The pairing at the prefix \<open>adset\<close>.\<close>

theorem name_id_paired_witness:
  "''adset'' \<in> {''campaign'', ''adset'', ''ad''}
   \<and> ''adset_name'' \<in> set DEFAULT_API_FIELDS \<and> ''adset_id'' \<in> set DEFAULT_API_FIELDS"
proof -
  have h: "''adset'' \<in> {''campaign'', ''adset'', ''ad''}" by simp
  from name_id_paired [rule_format, OF h] show ?thesis using h by simp
qed

section \<open>The retry policy\<close>

text \<open>
  C3. In \<open>API_RETRY_CONFIG\<close> the value under \<open>total\<close> is a positive integer, and the value
  under \<open>status_forcelist\<close> is a list whose every element is an integer from 500 to 599.
\<close>

theorem retry_total_and_status_codes:
  "(\<exists>n. getitem API_RETRY_CONFIG ''total'' = Inr (PInt n) \<and> 0 < n)
   \<and> (\<exists>cs. getitem API_RETRY_CONFIG ''status_forcelist'' = Inr (PList cs)
         \<and> (\<forall>c \<in> set cs. \<exists>k. c = PInt k \<and> 500 \<le> k \<and> k \<le> 599))"
  by (simp add: API_RETRY_CONFIG_def getitem_def)

text \<open>The code 503 is in the list, and the theorem places it in the range.\<close>

theorem retry_total_and_status_codes_witness:
  "\<exists>cs. getitem API_RETRY_CONFIG ''status_forcelist'' = Inr (PList cs)
        \<and> PInt 503 \<in> set cs \<and> (\<exists>k. PInt 503 = PInt k \<and> 500 \<le> k \<and> k \<le> 599)"
proof -
  from retry_total_and_status_codes obtain cs where
    g: "getitem API_RETRY_CONFIG ''status_forcelist'' = Inr (PList cs)" and
    r: "\<forall>c \<in> set cs. \<exists>k. c = PInt k \<and> 500 \<le> k \<and> k \<le> 599"
    by blast
  from g have m: "PInt 503 \<in> set cs"
    by (simp add: API_RETRY_CONFIG_def getitem_def) auto
  from r m have "\<exists>k. PInt 503 = PInt k \<and> 500 \<le> k \<and> k \<le> 599" by (rule bspec)
  with g m show ?thesis by blast
qed

text \<open>
  C5. \<open>API_RETRY_CONFIG\<close> has exactly the three keys \<open>total\<close>, \<open>backoff_factor\<close> and
  \<open>status_forcelist\<close>: an integer, a number (an integer as well) and a collection
  without duplicates whose elements are all integers. In the source the collection is a
  list literal.
\<close>

theorem retry_policy_shape:
  "keys API_RETRY_CONFIG = [''total'', ''backoff_factor'', ''status_forcelist'']
   \<and> length API_RETRY_CONFIG = 3
   \<and> (\<exists>n. getitem API_RETRY_CONFIG ''total'' = Inr (PInt n))
   \<and> (\<exists>b. getitem API_RETRY_CONFIG ''backoff_factor'' = Inr (PInt b))
   \<and> (\<exists>cs. getitem API_RETRY_CONFIG ''status_forcelist'' = Inr (PList cs)
         \<and> distinct cs \<and> (\<forall>c \<in> set cs. \<exists>k. c = PInt k))"
  by (simp add: API_RETRY_CONFIG_def keys_def getitem_def)

text \<open>The code 500 is in the collection, and the theorem gives that it is an integer.\<close>

theorem retry_policy_shape_witness:
  "\<exists>cs. getitem API_RETRY_CONFIG ''status_forcelist'' = Inr (PList cs)
        \<and> PInt 500 \<in> set cs \<and> (\<exists>k. PInt 500 = PInt k)"
proof -
  from retry_policy_shape obtain cs where
    g: "getitem API_RETRY_CONFIG ''status_forcelist'' = Inr (PList cs)" and
    r: "\<forall>c \<in> set cs. \<exists>k. c = PInt k"
    by blast
  from g have m: "PInt 500 \<in> set cs"
    by (simp add: API_RETRY_CONFIG_def getitem_def) auto
  from r m have "\<exists>k. PInt 500 = PInt k" by (rule bspec)
  with g m show ?thesis by blast
qed

section \<open>The bulk-load policy\<close>

text \<open>
  C4. \<open>BIGQUERY_CONFIG\<close> consists of the conflict mode under \<open>if_exists\<close>, which is the
  mode string \<open>replace\<close>, and the batch size under \<open>chunksize\<close>, a positive integer.
\<close>

theorem bigquery_policy:
  "keys BIGQUERY_CONFIG = [''if_exists'', ''chunksize'']
   \<and> getitem BIGQUERY_CONFIG ''if_exists'' = Inr (PStr ''replace'')
   \<and> (\<exists>n. getitem BIGQUERY_CONFIG ''chunksize'' = Inr (PInt n) \<and> 0 < n)"
  by (simp add: BIGQUERY_CONFIG_def keys_def getitem_def)

section \<open>The logging policy\<close>

text \<open>
  C6. \<open>LOGGING_CONFIG\<close> provides under \<open>level\<close> a level name of the \<open>logging\<close> module,
  under \<open>format\<close> a string that contains a placeholder \<open>%(name)s\<close> for some non-empty
  name, under \<open>handlers\<close> a list of non-empty strings, and under \<open>log_file\<close> a non-empty
  string.
\<close>

theorem logging_policy_shape:
  "(\<exists>l. getitem LOGGING_CONFIG ''level'' = Inr (PStr l) \<and> l \<in> set logging_level_names)
   \<and> (\<exists>f name. getitem LOGGING_CONFIG ''format'' = Inr (PStr f)
         \<and> name \<noteq> [] \<and> sublist (''%('' @ name @ '')s'') f)
   \<and> (\<exists>hs. getitem LOGGING_CONFIG ''handlers'' = Inr (PList hs)
         \<and> (\<forall>h \<in> set hs. \<exists>s. h = PStr s \<and> s \<noteq> []))
   \<and> (\<exists>p. getitem LOGGING_CONFIG ''log_file'' = Inr (PStr p) \<and> p \<noteq> [])"
proof (intro conjI)
  show "\<exists>l. getitem LOGGING_CONFIG ''level'' = Inr (PStr l) \<and> l \<in> set logging_level_names"
    by (simp add: LOGGING_CONFIG_def getitem_def logging_level_names_def)
  have "sublist (''%('' @ ''asctime'' @ '')s'') ''%(asctime)s - %(levelname)s - %(message)s''"
    by simp
  then show "\<exists>f name. getitem LOGGING_CONFIG ''format'' = Inr (PStr f)
         \<and> name \<noteq> [] \<and> sublist (''%('' @ name @ '')s'') f"
    by (intro exI [of _ "''%(asctime)s - %(levelname)s - %(message)s''"] exI [of _ "''asctime''"])
      (simp add: LOGGING_CONFIG_def getitem_def)
  show "\<exists>hs. getitem LOGGING_CONFIG ''handlers'' = Inr (PList hs)
         \<and> (\<forall>h \<in> set hs. \<exists>s. h = PStr s \<and> s \<noteq> [])"
    by (simp add: LOGGING_CONFIG_def getitem_def)
  show "\<exists>p. getitem LOGGING_CONFIG ''log_file'' = Inr (PStr p) \<and> p \<noteq> []"
    by (simp add: LOGGING_CONFIG_def getitem_def)
qed

text \<open>
  The handler name \<open>FileHandler\<close> is in the list, and the theorem gives that it is a
  non-empty string.
\<close>

theorem logging_policy_shape_witness:
  "\<exists>hs. getitem LOGGING_CONFIG ''handlers'' = Inr (PList hs)
        \<and> PStr ''FileHandler'' \<in> set hs \<and> (\<exists>s. PStr ''FileHandler'' = PStr s \<and> s \<noteq> [])"
proof -
  from logging_policy_shape obtain hs where
    g: "getitem LOGGING_CONFIG ''handlers'' = Inr (PList hs)" and
    r: "\<forall>h \<in> set hs. \<exists>s. h = PStr s \<and> s \<noteq> []"
    by blast
  from g have m: "PStr ''FileHandler'' \<in> set hs"
    by (simp add: LOGGING_CONFIG_def getitem_def) auto
  from r m have "\<exists>s. PStr ''FileHandler'' = PStr s \<and> s \<noteq> []" by (rule bspec)
  with g m show ?thesis by blast
qed

text \<open>
  C10. The format string of \<open>LOGGING_CONFIG\<close> has exactly three conversion specifiers,
  \<open>%(asctime)s\<close>, \<open>%(levelname)s\<close> and \<open>%(message)s\<close> in this order, each of which
  occurs once; the string has three \<open>%\<close> characters, so no other specifier.
\<close>

theorem logging_format_placeholders:
  "\<exists>f. getitem LOGGING_CONFIG ''format'' = Inr (PStr f)
     \<and> percent_specs f =
         [ Spec (Some ''asctime'') [] CHR ''s'',
           Spec (Some ''levelname'') [] CHR ''s'',
           Spec (Some ''message'') [] CHR ''s'' ]
     \<and> count_occurrences ''%(asctime)s'' f = 1
     \<and> count_occurrences ''%(levelname)s'' f = 1
     \<and> count_occurrences ''%(message)s'' f = 1
     \<and> count_list f CHR ''%'' = 3
     \<and> f = ''%(asctime)s'' @ '' - '' @ ''%(levelname)s'' @ '' - '' @ ''%(message)s''"
  by (simp add: LOGGING_CONFIG_def getitem_def percent_specs_def)

section \<open>Initialisation and reads\<close>




end
